theory Spec2Isabelle
  imports Main "HOL-Library.Sublist"
begin

section \<open>Python text operations used by the agent\<close>

text \<open>
  Python's \<open>str\<close> is modelled by \<^typ>\<open>string\<close>: a \<^typ>\<open>char\<close> is a code point below 256, the
  range of HOL's characters. On that range \<open>py_isspace\<close> and \<open>py_lower_char\<close> are
  what \<open>str.isspace\<close> and \<open>str.lower\<close> do in CPython.
\<close>

definition py_isspace :: "char \<Rightarrow> bool" where
  "py_isspace c =
     (let n = (of_char c :: nat)
      in (9 \<le> n \<and> n \<le> 13) \<or> (28 \<le> n \<and> n \<le> 32) \<or> n = 133 \<or> n = 160)"

definition py_lower_char :: "char \<Rightarrow> char" where
  "py_lower_char c =
     (let n = (of_char c :: nat)
      in if (65 \<le> n \<and> n \<le> 90) \<or> (192 \<le> n \<and> n \<le> 214) \<or> (216 \<le> n \<and> n \<le> 222)
         then char_of (n + 32) else c)"

definition py_lower :: "string \<Rightarrow> string" where
  \<comment> \<open>\<open>s.lower()\<close>\<close>
  "py_lower s = map py_lower_char s"

definition py_strip :: "string \<Rightarrow> string" where
  \<comment> \<open>\<open>s.strip()\<close>: leading and trailing whitespace removed\<close>
  "py_strip s = rev (dropWhile py_isspace (rev (dropWhile py_isspace s)))"

fun py_in :: "string \<Rightarrow> string \<Rightarrow> bool" where
  \<comment> \<open>\<open>w in s\<close> on strings: \<open>w\<close> occurs in \<open>s\<close> as a contiguous substring\<close>
  "py_in w [] = (w = [])"
| "py_in w (c # cs) = (prefix w (c # cs) \<or> py_in w cs)"

definition py_replace_char :: "char \<Rightarrow> char \<Rightarrow> string \<Rightarrow> string" where
  \<comment> \<open>\<open>s.replace(a, b)\<close> for one-character \<open>a\<close> and \<open>b\<close>\<close>
  "py_replace_char a b s = map (\<lambda>c. if c = a then b else c) s"

section \<open>Messages, the agent state and the language-model port\<close>

datatype message = HumanMessage string | AIMessage string

fun content :: "message \<Rightarrow> string" where
  "content (HumanMessage t) = t"
| "content (AIMessage t) = t"

text \<open>
  \<open>llm.invoke\<close> is called with a list of messages by the classifier and with a plain
  prompt string by the mental-health node.
\<close>

datatype llm_input = Messages "message list" | Prompt string

datatype port_reply = Text string | Fails string

text \<open>
  The language model is outside the program. A port answers the \<open>n\<close>-th call of a turn
  (counted from 0) on a given input either with the response's text or by raising.
\<close>

type_synonym port = "nat \<Rightarrow> llm_input \<Rightarrow> port_reply"

datatype error = IndexError | KeyError string | PortFailure string | UnknownBranch string

text \<open>
  \<open>AgentState\<close> is a dictionary with the keys \<open>chat_history\<close>, \<open>symptom\<close> and \<open>category\<close>;
  the last two are absent until a node stores them. The list under \<open>chat_history\<close> is the
  very list object of the session (\<open>st.session_state.messages\<close>), which the nodes extend
  in place with \<open>append\<close>. The field \<open>calls\<close> is the log of the invocations of the port
  made so far, oldest first.
\<close>

record world =
  chat_history :: "message list"
  symptom :: "string option"
  category :: "string option"
  calls :: "llm_input list"

text \<open>
  A node either returns the state or raises. An exception does not undo what the node
  and its predecessors have already written, so \<open>Raised\<close> carries the world as it is when
  the exception leaves the graph.
\<close>

datatype outcome = Returned world | Raised error world

fun world_of :: "outcome \<Rightarrow> world" where
  "world_of (Returned w) = w"
| "world_of (Raised e w) = w"

fun and_then :: "outcome \<Rightarrow> (world \<Rightarrow> outcome) \<Rightarrow> outcome" where
  "and_then (Returned w) f = f w"
| "and_then (Raised e w) f = Raised e w"

section \<open>The nodes\<close>

definition get_symptom :: "world \<Rightarrow> outcome" where
  "get_symptom w =
     (case chat_history w of
        [] \<Rightarrow> Raised IndexError w
      | m # ms \<Rightarrow> Returned (w\<lparr>symptom := Some (content (last (m # ms)))\<rparr>))"

definition classify_instruction :: string where
  \<open>classify_instruction =
     ''You are a helpful medical assistant. Classify the user\'s statement into one of the following categories: '' @
     ''\'General\', \'Emergency\', or \'Mental Health\'. Your response should be a single word. '' @
     ''For example, if the user says \'I have a fever\', you should respond with \'General\'. '' @
     ''If the user says \'I\'m having chest pains\', you should respond with \'Emergency\'. '' @
     ''If the user says \'I feel anxious and sad\', you should respond with \'Mental Health\'.''\<close>

definition classify_prompt :: "string \<Rightarrow> string" where
  \<open>classify_prompt s =
     classify_instruction @ ''\<newline>\<newline>User\'s statement: '' @ [CHR 0x22] @ s @ [CHR 0x22]\<close>

definition category_of_response :: "string \<Rightarrow> string" where
  \<comment> \<open>lines 60 to 70 of \<open>classify_symptom\<close>\<close>
  "category_of_response r =
     (let category = py_lower (py_strip r)
      in if py_in ''general'' category then ''general''
         else if py_in ''emergency'' category then ''emergency''
         else if py_in ''mental'' category then ''mental_health''
         else ''general'')"

definition annotation :: "string \<Rightarrow> string" where
  \<comment> \<open>the text of the message appended on line 73\<close>
  "annotation c =
     ''(Thinking... It seems like this might be a '' @
     py_replace_char (CHR ''_'') (CHR '' '') c @ '' concern.)''"

definition classify_symptom :: "port \<Rightarrow> world \<Rightarrow> outcome" where
  "classify_symptom llm w =
     (case symptom w of
        None \<Rightarrow> Raised (KeyError ''symptom'') w
      | Some s \<Rightarrow>
          (let inp = Messages [HumanMessage (classify_prompt s)];
               w1 = w\<lparr>calls := calls w @ [inp]\<rparr>
           in case llm (length (calls w)) inp of
                Fails e \<Rightarrow> Raised (PortFailure e) w1
              | Text r \<Rightarrow>
                  (let c = category_of_response r;
                       w2 = w1\<lparr>category := Some c\<rparr>
                   in Returned (w2\<lparr>chat_history := chat_history w2 @ [AIMessage (annotation c)]\<rparr>))))"

definition general_text :: "string \<Rightarrow> string" where
  \<open>general_text s =
     ''Based on what you\'ve told me about '' @ [CHR 0x27] @ s @ ''\', this seems like a general health question. '' @
     ''I\'m an AI assistant and not a medical professional. For any health concerns, it\'s always best to consult with a doctor or a qualified healthcare provider. '' @
     ''They can give you accurate advice.''\<close>

definition general_node :: "world \<Rightarrow> outcome" where
  "general_node w =
     (case symptom w of
        None \<Rightarrow> Raised (KeyError ''symptom'') w
      | Some s \<Rightarrow> Returned (w\<lparr>chat_history := chat_history w @ [AIMessage (general_text s)]\<rparr>))"

definition emergency_text :: "string \<Rightarrow> string" where
  \<open>emergency_text s =
     ''Based on what you\'ve described as '' @ [CHR 0x27] @ s @ ''\', this could be a medical emergency. '' @
     ''Please do not wait. Contact your local emergency services immediately (like calling 911 in the US, 112 in Europe, or 108 in India) or go to the nearest emergency room. '' @
     ''Your health is the top priority, and getting immediate help is crucial.''\<close>

definition emergency_node :: "world \<Rightarrow> outcome" where
  "emergency_node w =
     (case symptom w of
        None \<Rightarrow> Raised (KeyError ''symptom'') w
      | Some s \<Rightarrow> Returned (w\<lparr>chat_history := chat_history w @ [AIMessage (emergency_text s)]\<rparr>))"

definition aura_policy :: string where
  \<open>aura_policy =
     ''You are \'Aura\', a caring and empathetic mental health companion. Your goal is to provide a safe, supportive, and non-judgmental space for the user. '' @
     ''You are not a therapist, so you must not give medical advice, diagnoses, or treatment plans. Instead, you should listen, offer comfort, and provide helpful, safe, and general information. '' @
     ''Always include a disclaimer in your first response that you are an AI and not a substitute for professional help.\<newline>\<newline>'' @
     ''Here are your guidelines:\<newline>'' @
     ''1.  **Be Empathetic:** Start by acknowledging the user\'s feelings (e.g., \'It sounds like you\'re going through a lot,\' \'Thank you for sharing that with me.\').\<newline>'' @
     ''2.  **Encourage Expression:** Ask open-ended questions to help the user explore their feelings (e.g., \'How long have you been feeling this way?\', \'Is there anything specific that has been on your mind?\').\<newline>'' @
     ''3.  **Offer General, Safe Coping Strategies:** Suggest things like mindfulness, deep breathing exercises, journaling, or connecting with friends/family.\<newline>'' @
     ''4.  **Provide Resources:** If appropriate, suggest seeking professional help and provide information on how to find it (e.g., \'talking to a therapist or counselor can be really helpful. You can find resources through the National Alliance on Mental Illness (NAMI) or by searching for local mental health services.\').\<newline>'' @
     ''5.  **Maintain a Calm and Gentle Tone:** Use soft and reassuring language.\<newline>\<newline>'' @
     ''Current Conversation:\<newline>''\<close>

text \<open>
  The prompt of the mental-health node formats the list of messages with Python's
  \<open>str\<close>, whose output for the message classes is fixed by the message library and not by
  this program: the rendering is the parameter \<open>render\<close>. The second slot is filled with
  \<open>latest\<close>, the content the node reads from the end of the history.
\<close>

definition mental_health_prompt :: "(message list \<Rightarrow> string) \<Rightarrow> message list \<Rightarrow> string \<Rightarrow> string" where
  \<open>mental_health_prompt render hist latest =
     aura_policy @ render hist @ ''\<newline>\<newline>'' @
     ''User\'s latest message: '' @ [CHR 0x22] @ latest @ [CHR 0x22] @ ''\<newline>\<newline>'' @
     ''Aura\'s Response:''\<close>

definition mental_health_node :: "(message list \<Rightarrow> string) \<Rightarrow> port \<Rightarrow> world \<Rightarrow> outcome" where
  "mental_health_node render llm w =
     (case chat_history w of
        [] \<Rightarrow> Raised IndexError w
      | m # ms \<Rightarrow>
          (let inp = Prompt (mental_health_prompt render (chat_history w) (content (last (m # ms))));
               w1 = w\<lparr>calls := calls w @ [inp]\<rparr>
           in case llm (length (calls w)) inp of
                Fails e \<Rightarrow> Raised (PortFailure e) w1
              | Text r \<Rightarrow> Returned (w1\<lparr>chat_history := chat_history w1 @ [AIMessage r]\<rparr>)))"

section \<open>The router and the graph\<close>

definition symptom_router :: "world \<Rightarrow> error + string" where
  "symptom_router w = (case category w of None \<Rightarrow> Inl (KeyError ''category'') | Some c \<Rightarrow> Inr c)"

definition path_map :: "(string \<times> string) list" where
  \<comment> \<open>the dictionary given to \<open>add_conditional_edges\<close>\<close>
  "path_map =
     [(''general'', ''general''),
      (''emergency'', ''emergency''),
      (''mental_health'', ''mental_health_conversation'')]"

definition nodes :: "(message list \<Rightarrow> string) \<Rightarrow> port \<Rightarrow> (string \<times> (world \<Rightarrow> outcome)) list" where
  \<comment> \<open>the \<open>add_node\<close> calls for the three nodes behind the conditional edge\<close>
  "nodes render llm =
     [(''general'', general_node),
      (''emergency'', emergency_node),
      (''mental_health_conversation'', mental_health_node render llm)]"

definition route :: "world \<Rightarrow> error + string" where
  \<comment> \<open>the conditional edge after \<open>classify\<close>: the router's key looked up in the path map\<close>
  "route w =
     (case symptom_router w of
        Inl e \<Rightarrow> Inl e
      | Inr key \<Rightarrow>
          (case map_of path_map key of
             None \<Rightarrow> Inl (UnknownBranch key)
           | Some n \<Rightarrow> Inr n))"

definition dispatch :: "(message list \<Rightarrow> string) \<Rightarrow> port \<Rightarrow> world \<Rightarrow> outcome" where
  "dispatch render llm w =
     (case route w of
        Inl e \<Rightarrow> Raised e w
      | Inr n \<Rightarrow>
          (case map_of (nodes render llm) n of
             None \<Rightarrow> Raised (UnknownBranch n) w
           | Some node \<Rightarrow> node w))"

definition graph_invoke :: "(message list \<Rightarrow> string) \<Rightarrow> port \<Rightarrow> world \<Rightarrow> outcome" where
  \<comment> \<open>entry point \<open>get_symptom\<close>, edge to \<open>classify\<close>, conditional edge, then \<open>END\<close>\<close>
  "graph_invoke render llm w =
     and_then (and_then (get_symptom w) (classify_symptom llm)) (dispatch render llm)"

definition initial_state :: "message list \<Rightarrow> world" where
  \<comment> \<open>\<open>{"chat_history": st.session_state.messages}\<close>, before any call of the port\<close>
  "initial_state hist = \<lparr>chat_history = hist, symptom = None, category = None, calls = []\<rparr>"

definition run_turn :: "(message list \<Rightarrow> string) \<Rightarrow> port \<Rightarrow> message list \<Rightarrow> outcome" where
  "run_turn render llm hist = graph_invoke render llm (initial_state hist)"

section \<open>The classification rule in the specification's words\<close>

text \<open>
  The specification describes the parsing rule as an ordered substring test on the trimmed,
  lower-cased response. \<open>spec_contains t w\<close> says that \<open>w\<close> occurs somewhere in \<open>t\<close>;
  \<open>spec_first_match\<close> is the rule as the specification words it. Both are compared below
  with \<open>category_of_response\<close>, which is the code.
\<close>

definition spec_contains :: "string \<Rightarrow> string \<Rightarrow> bool" where
  "spec_contains t w = (\<exists>p q. t = p @ w @ q)"

definition spec_first_match :: "string \<Rightarrow> string" where
  "spec_first_match t =
     (if spec_contains t ''general'' then ''general''
      else if spec_contains t ''emergency'' then ''emergency''
      else if spec_contains t ''mental'' then ''mental_health''
      else ''general'')"

section \<open>Observing a turn, and scripted ports for the scenarios\<close>

fun raised :: "outcome \<Rightarrow> error option" where
  "raised (Returned w) = None"
| "raised (Raised e w) = Some e"

text \<open>
  A scripted port answers the \<open>n\<close>-th call with the \<open>n\<close>-th entry of a list, whatever the
  input, and raises when the script is exhausted.
\<close>

fun scripted :: "port_reply list \<Rightarrow> port" where
  "scripted [] n inp = Fails ''no scripted reply''"
| "scripted (r # rs) 0 inp = r"
| "scripted (r # rs) (Suc n) inp = scripted rs n inp"

text \<open>The greeting that opens every session (line 187).\<close>

definition greeting :: message where
  \<open>greeting = AIMessage ''Hello! I\'m Aura. I\'m here to listen. How are you feeling today?''\<close>

text \<open>
  A sample rendering of a list of messages, used only to make the scenarios concrete; the
  general theorems hold for every rendering.
\<close>

fun role_name :: "message \<Rightarrow> string" where
  "role_name (HumanMessage t) = ''HumanMessage''"
| "role_name (AIMessage t) = ''AIMessage''"

definition example_render :: "message list \<Rightarrow> string" where
  "example_render ms = concat (map (\<lambda>m. role_name m @ '': '' @ content m @ ''\<newline>'') ms)"

text \<open>
  The two inputs the port receives in a turn on the prior transcript \<open>hist\<close>: the
  classifier's, and the one the mental-health node builds after the classifier has
  appended its annotation.
\<close>

abbreviation classify_call :: "message list \<Rightarrow> llm_input" where
  "classify_call hist \<equiv> Messages [HumanMessage (classify_prompt (content (last hist)))]"

abbreviation persona_call :: "(message list \<Rightarrow> string) \<Rightarrow> message list \<Rightarrow> llm_input" where
  "persona_call render hist \<equiv>
     Prompt (mental_health_prompt render (hist @ [AIMessage (annotation ''mental_health'')])
       (annotation ''mental_health''))"

section \<open>Facts about the nodes and the turn\<close>

lemma py_in_sublist: "py_in w s = sublist w s"
  by (induction s) (simp_all add: sublist_Cons_right)

lemma py_in_iff: "py_in w s = spec_contains s w"
  by (simp add: py_in_sublist sublist_def spec_contains_def)

lemma category_of_response_cases:
  "category_of_response r = ''general'' \<or> category_of_response r = ''emergency'' \<or>
   category_of_response r = ''mental_health''"
  by (simp add: category_of_response_def Let_def)

lemma get_symptom_initial:
  "hist \<noteq> [] \<Longrightarrow>
   get_symptom (initial_state hist) =
     Returned \<lparr>chat_history = hist, symptom = Some (content (last hist)), category = None, calls = []\<rparr>"
  by (cases hist) (simp_all add: get_symptom_def initial_state_def)

lemma classify_symptom_text:
  assumes "symptom w = Some s"
    and "llm (length (calls w)) (Messages [HumanMessage (classify_prompt s)]) = Text r"
  shows "classify_symptom llm w =
    Returned (w\<lparr>chat_history := chat_history w @ [AIMessage (annotation (category_of_response r))],
                category := Some (category_of_response r),
                calls := calls w @ [Messages [HumanMessage (classify_prompt s)]]\<rparr>)"
  using assms by (simp add: classify_symptom_def Let_def)

lemma classify_symptom_fails:
  assumes "symptom w = Some s"
    and "llm (length (calls w)) (Messages [HumanMessage (classify_prompt s)]) = Fails e"
  shows "classify_symptom llm w =
    Raised (PortFailure e) (w\<lparr>calls := calls w @ [Messages [HumanMessage (classify_prompt s)]]\<rparr>)"
  using assms by (simp add: classify_symptom_def Let_def)

lemma route_general: "category w = Some ''general'' \<Longrightarrow> route w = Inr ''general''"
  by (simp add: route_def symptom_router_def path_map_def)

lemma route_emergency: "category w = Some ''emergency'' \<Longrightarrow> route w = Inr ''emergency''"
  by (simp add: route_def symptom_router_def path_map_def)

lemma route_mental_health:
  "category w = Some ''mental_health'' \<Longrightarrow> route w = Inr ''mental_health_conversation''"
  by (simp add: route_def symptom_router_def path_map_def)

lemma dispatch_general: "category w = Some ''general'' \<Longrightarrow> dispatch render llm w = general_node w"
  by (simp add: dispatch_def route_general nodes_def)

lemma dispatch_emergency:
  "category w = Some ''emergency'' \<Longrightarrow> dispatch render llm w = emergency_node w"
  by (simp add: dispatch_def route_emergency nodes_def)

lemma dispatch_mental_health:
  "category w = Some ''mental_health'' \<Longrightarrow>
   dispatch render llm w = mental_health_node render llm w"
  by (simp add: dispatch_def route_mental_health nodes_def)

lemma run_turn_empty: "run_turn render llm [] = Raised IndexError (initial_state [])"
  by (simp add: run_turn_def graph_invoke_def get_symptom_def initial_state_def)

lemma run_turn_classified:
  assumes "hist \<noteq> []"
    and "llm 0 (Messages [HumanMessage (classify_prompt (content (last hist)))]) = Text r"
  shows "run_turn render llm hist =
    dispatch render llm
      \<lparr>chat_history = hist @ [AIMessage (annotation (category_of_response r))],
       symptom = Some (content (last hist)),
       category = Some (category_of_response r),
       calls = [Messages [HumanMessage (classify_prompt (content (last hist)))]]\<rparr>"
  using assms
  by (simp add: run_turn_def graph_invoke_def get_symptom_initial
      classify_symptom_text [where s = "content (last hist)" and r = r])

lemma run_turn_classifier_fails:
  assumes "hist \<noteq> []"
    and "llm 0 (Messages [HumanMessage (classify_prompt (content (last hist)))]) = Fails e"
  shows "run_turn render llm hist =
    Raised (PortFailure e)
      \<lparr>chat_history = hist, symptom = Some (content (last hist)), category = None,
       calls = [Messages [HumanMessage (classify_prompt (content (last hist)))]]\<rparr>"
  using assms
  by (simp add: run_turn_def graph_invoke_def get_symptom_initial
      classify_symptom_fails [where s = "content (last hist)" and e = e])

lemma run_turn_general:
  assumes "hist \<noteq> []" and "llm 0 (classify_call hist) = Text r"
    and "category_of_response r = ''general''"
  shows "run_turn render llm hist =
    Returned
      \<lparr>chat_history = hist @ [AIMessage (annotation ''general''),
                              AIMessage (general_text (content (last hist)))],
       symptom = Some (content (last hist)), category = Some ''general'',
       calls = [classify_call hist]\<rparr>"
  using assms by (simp add: run_turn_classified dispatch_general general_node_def)

lemma run_turn_emergency:
  assumes "hist \<noteq> []" and "llm 0 (classify_call hist) = Text r"
    and "category_of_response r = ''emergency''"
  shows "run_turn render llm hist =
    Returned
      \<lparr>chat_history = hist @ [AIMessage (annotation ''emergency''),
                              AIMessage (emergency_text (content (last hist)))],
       symptom = Some (content (last hist)), category = Some ''emergency'',
       calls = [classify_call hist]\<rparr>"
  using assms by (simp add: run_turn_classified dispatch_emergency emergency_node_def)

lemma mental_health_node_nonempty:
  assumes "chat_history w \<noteq> []"
  shows "mental_health_node render llm w =
    (case llm (length (calls w))
            (Prompt (mental_health_prompt render (chat_history w) (content (last (chat_history w))))) of
       Fails e \<Rightarrow>
         Raised (PortFailure e)
           (w\<lparr>calls := calls w @
              [Prompt (mental_health_prompt render (chat_history w) (content (last (chat_history w))))]\<rparr>)
     | Text t \<Rightarrow>
         Returned
           (w\<lparr>chat_history := chat_history w @ [AIMessage t],
              calls := calls w @
              [Prompt (mental_health_prompt render (chat_history w) (content (last (chat_history w))))]\<rparr>))"
proof (cases "chat_history w")
  case Nil
  with assms show ?thesis by simp
next
  case (Cons m ms)
  then show ?thesis
    by (simp add: mental_health_node_def Let_def del: last.simps split: port_reply.splits)
qed

lemma run_turn_mental_health:
  assumes "hist \<noteq> []" and "llm 0 (classify_call hist) = Text r"
    and "category_of_response r = ''mental_health''"
  shows "run_turn render llm hist =
    (case llm 1 (persona_call render hist) of
       Fails e \<Rightarrow>
         Raised (PortFailure e)
           \<lparr>chat_history = hist @ [AIMessage (annotation ''mental_health'')],
            symptom = Some (content (last hist)), category = Some ''mental_health'',
            calls = [classify_call hist, persona_call render hist]\<rparr>
     | Text t \<Rightarrow>
         Returned
           \<lparr>chat_history = hist @ [AIMessage (annotation ''mental_health''), AIMessage t],
            symptom = Some (content (last hist)), category = Some ''mental_health'',
            calls = [classify_call hist, persona_call render hist]\<rparr>)"
  using assms
  by (simp add: run_turn_classified dispatch_mental_health mental_health_node_nonempty
      split: port_reply.splits)

lemma category_of_response_spec:
  "category_of_response r = spec_first_match (py_lower (py_strip r))"
  by (simp add: category_of_response_def spec_first_match_def py_in_iff Let_def)

lemma mental_health_response: "category_of_response ''Mental Health'' = ''mental_health''"
  by code_simp

lemma general_response: "category_of_response ''General'' = ''general''"
  by code_simp

lemma empty_response: "category_of_response [] = ''general''"
  by code_simp

lemma annotation_mental_health:
  "annotation ''mental_health'' = ''(Thinking... It seems like this might be a mental health concern.)''"
  by (simp add: annotation_def py_replace_char_def)

lemma run_turn_first_call:
  assumes "hist \<noteq> []"
  shows "take 1 (calls (world_of (run_turn render llm hist))) = [classify_call hist]"
proof (cases "llm 0 (classify_call hist)")
  case (Fails e)
  with assms show ?thesis
    by (simp add: run_turn_classifier_fails)
next
  case (Text r)
  from category_of_response_cases [of r] show ?thesis
  proof (elim disjE)
    assume "category_of_response r = ''general''"
    with assms Text show ?thesis
      by (simp add: run_turn_general)
  next
    assume "category_of_response r = ''emergency''"
    with assms Text show ?thesis
      by (simp add: run_turn_emergency)
  next
    assume "category_of_response r = ''mental_health''"
    with assms Text show ?thesis
      by (simp add: run_turn_mental_health split: port_reply.splits)
  qed
qed

lemma mental_health_prompt_latest:
  "mental_health_prompt render hist a = mental_health_prompt render hist b \<longleftrightarrow> a = b"
  by (auto simp add: mental_health_prompt_def)

lemma classify_symptom_returned:
  assumes "classify_symptom llm w = Returned w'"
  shows "\<exists>s r. symptom w = Some s \<and>
           llm (length (calls w)) (Messages [HumanMessage (classify_prompt s)]) = Text r \<and>
           w' = w\<lparr>chat_history := chat_history w @ [AIMessage (annotation (category_of_response r))],
                  category := Some (category_of_response r),
                  calls := calls w @ [Messages [HumanMessage (classify_prompt s)]]\<rparr>"
  using assms
  by (auto simp add: classify_symptom_def Let_def split: option.splits port_reply.splits)

lemma symptom_dispatch: "symptom (world_of (dispatch render llm w)) = symptom w"
  by (auto simp add: dispatch_def nodes_def general_node_def emergency_node_def
      mental_health_node_def Let_def
      split: sum.splits option.splits list.splits port_reply.splits if_splits)

lemma annotation_general:
  "annotation ''general'' = ''(Thinking... It seems like this might be a general concern.)''"
  by (simp add: annotation_def py_replace_char_def)

lemma annotation_emergency:
  "annotation ''emergency'' = ''(Thinking... It seems like this might be a emergency concern.)''"
  by (simp add: annotation_def py_replace_char_def)

section \<open>The claims\<close>

text \<open>
  C1. The specification states: whenever the trimmed response contains "emergency" (in any case), the
  category is emergency, whether or not "general" or "mental" appear as well. The code
  tests "general" first: the response "Emergency, not General" contains "emergency" and
  is classified general.
\<close>

theorem emergency_substring_counterexample:
  "py_in ''emergency'' (py_lower (py_strip ''Emergency, not General'')) \<and>
   category (world_of (classify_symptom (scripted [Text ''Emergency, not General''])
     (world_of (get_symptom (initial_state [greeting, HumanMessage ''I am tired''])))))
   = Some ''general''"
proof -
  have "py_in ''emergency'' (py_lower (py_strip ''Emergency, not General''))"
    by code_simp
  moreover have "category_of_response ''Emergency, not General'' = ''general''"
    by code_simp
  ultimately show ?thesis
    by (simp add: get_symptom_def initial_state_def classify_symptom_def Let_def)
qed

text \<open>
  C1, as the code has it: a response whose trimmed, lower-cased text contains "emergency"
  and does not contain "general" is classified emergency, whether or not "mental" appears.
\<close>

theorem emergency_without_general:
  assumes "symptom w = Some s"
    and "llm (length (calls w)) (Messages [HumanMessage (classify_prompt s)]) = Text r"
    and "spec_contains (py_lower (py_strip r)) ''emergency''"
    and "\<not> spec_contains (py_lower (py_strip r)) ''general''"
  shows "\<exists>w'. classify_symptom llm w = Returned w' \<and> category w' = Some ''emergency''"
proof -
  have "category_of_response r = ''emergency''"
    using assms(3,4) by (simp add: category_of_response_spec spec_first_match_def)
  then show ?thesis
    using classify_symptom_text [where llm = llm, OF assms(1,2)] by simp
qed

theorem emergency_without_general_witness:
  "symptom (world_of (get_symptom (initial_state [greeting, HumanMessage ''I am tired'']))) =
     Some ''I am tired'' \<and>
   py_in ''emergency'' (py_lower (py_strip ''Mental EMERGENCY'')) \<and>
   py_in ''mental'' (py_lower (py_strip ''Mental EMERGENCY'')) \<and>
   \<not> py_in ''general'' (py_lower (py_strip ''Mental EMERGENCY'')) \<and>
   (\<exists>w'. classify_symptom (scripted [Text ''Mental EMERGENCY''])
            (world_of (get_symptom (initial_state [greeting, HumanMessage ''I am tired'']))) =
          Returned w' \<and>
        category w' = Some ''emergency'')"
proof -
  let ?w = "world_of (get_symptom (initial_state [greeting, HumanMessage ''I am tired'']))"
  have s: "symptom ?w = Some ''I am tired''"
    by (simp add: get_symptom_def initial_state_def)
  have c: "calls ?w = []"
    by (simp add: get_symptom_def initial_state_def)
  have p: "scripted [Text ''Mental EMERGENCY''] (length (calls ?w))
             (Messages [HumanMessage (classify_prompt ''I am tired'')]) = Text ''Mental EMERGENCY''"
    by (simp add: c)
  have e: "py_in ''emergency'' (py_lower (py_strip ''Mental EMERGENCY''))"
    by code_simp
  have m: "py_in ''mental'' (py_lower (py_strip ''Mental EMERGENCY''))"
    by code_simp
  have g: "\<not> py_in ''general'' (py_lower (py_strip ''Mental EMERGENCY''))"
    by code_simp
  from emergency_without_general
         [where llm = "scripted [Text ''Mental EMERGENCY'']", OF s p e [unfolded py_in_iff] g [unfolded py_in_iff]]
       s e m g
  show ?thesis by blast
qed

text \<open>
  C2. The classifier trims and lower-cases the text the port returns and applies an ordered
  first-match-wins substring test: "general" gives general, else "emergency" gives
  emergency, else "mental" gives mental_health, else general. In particular a response
  with none of the three substrings is classified general.
\<close>

theorem classify_symptom_first_match:
  assumes "symptom w = Some s"
    and "llm (length (calls w)) (Messages [HumanMessage (classify_prompt s)]) = Text r"
  shows "\<exists>w'. classify_symptom llm w = Returned w' \<and>
           category w' = Some (spec_first_match (py_lower (py_strip r))) \<and>
           (\<not> spec_contains (py_lower (py_strip r)) ''general'' \<and>
            \<not> spec_contains (py_lower (py_strip r)) ''emergency'' \<and>
            \<not> spec_contains (py_lower (py_strip r)) ''mental'' \<longrightarrow>
            category w' = Some ''general'')"
proof -
  let ?c = "category_of_response r"
  let ?w' = "w\<lparr>chat_history := chat_history w @ [AIMessage (annotation ?c)],
               category := Some ?c,
               calls := calls w @ [Messages [HumanMessage (classify_prompt s)]]\<rparr>"
  have run: "classify_symptom llm w = Returned ?w'"
    using assms by (rule classify_symptom_text)
  have cat: "category ?w' = Some (spec_first_match (py_lower (py_strip r)))"
    by (simp add: category_of_response_spec)
  have "\<not> spec_contains (py_lower (py_strip r)) ''general'' \<and>
        \<not> spec_contains (py_lower (py_strip r)) ''emergency'' \<and>
        \<not> spec_contains (py_lower (py_strip r)) ''mental'' \<longrightarrow>
        category ?w' = Some ''general''"
    by (simp add: category_of_response_spec spec_first_match_def)
  with run cat show ?thesis by blast
qed

theorem classify_symptom_first_match_witness:
  "symptom (world_of (get_symptom (initial_state [greeting, HumanMessage ''I am tired'']))) =
     Some ''I am tired'' \<and>
   (\<exists>w'. classify_symptom (scripted [Text ''  I\<newline>am not sure  ''])
            (world_of (get_symptom (initial_state [greeting, HumanMessage ''I am tired'']))) =
          Returned w' \<and>
        category w' = Some ''general'') \<and>
   (\<exists>w'. classify_symptom (scripted [Text '' Mental Health\<newline>''])
            (world_of (get_symptom (initial_state [greeting, HumanMessage ''I am tired'']))) =
          Returned w' \<and>
        category w' = Some ''mental_health'')"
proof -
  let ?w = "world_of (get_symptom (initial_state [greeting, HumanMessage ''I am tired'']))"
  have s: "symptom ?w = Some ''I am tired''"
    by (simp add: get_symptom_def initial_state_def)
  have c: "calls ?w = []"
    by (simp add: get_symptom_def initial_state_def)
  have m1: "spec_first_match (py_lower (py_strip ''  I\<newline>am not sure  '')) = ''general''"
    unfolding category_of_response_spec [symmetric] by code_simp
  have m2: "spec_first_match (py_lower (py_strip '' Mental Health\<newline>'')) = ''mental_health''"
    unfolding category_of_response_spec [symmetric] by code_simp
  have p1: "scripted [Text ''  I\<newline>am not sure  ''] (length (calls ?w))
              (Messages [HumanMessage (classify_prompt ''I am tired'')]) =
            Text ''  I\<newline>am not sure  ''"
    by (simp add: c)
  have p2: "scripted [Text '' Mental Health\<newline>''] (length (calls ?w))
              (Messages [HumanMessage (classify_prompt ''I am tired'')]) =
            Text '' Mental Health\<newline>''"
    by (simp add: c)
  from classify_symptom_first_match [where llm = "scripted [Text ''  I\<newline>am not sure  '']", OF s p1]
    classify_symptom_first_match [where llm = "scripted [Text '' Mental Health\<newline>'']", OF s p2] s
  show ?thesis unfolding m1 m2 by blast
qed

text \<open>
  C3. The specification states: when a call of the port fails (raises, or returns empty or
  malformed text), the failure propagates and the transcript holds either both new
  messages or none. When the mental-health node's call raises, the annotation is already
  in the transcript and the reply is not; and an empty text is no failure, for either
  call: an empty classification text completes the turn as a general one, an empty
  mental-health reply is appended as it is.
\<close>

theorem partial_commit_counterexample:
  "raised (run_turn example_render (scripted [Text ''Mental Health'', Fails ''timeout''])
     [greeting, HumanMessage ''I feel anxious and sad'']) = Some (PortFailure ''timeout'') \<and>
   chat_history (world_of (run_turn example_render (scripted [Text ''Mental Health'', Fails ''timeout''])
     [greeting, HumanMessage ''I feel anxious and sad''])) =
     [greeting, HumanMessage ''I feel anxious and sad'',
      AIMessage ''(Thinking... It seems like this might be a mental health concern.)''] \<and>
   raised (run_turn example_render (scripted [Text []])
     [greeting, HumanMessage ''I have a fever'']) = None \<and>
   length (chat_history (world_of (run_turn example_render (scripted [Text []])
     [greeting, HumanMessage ''I have a fever'']))) = 4 \<and>
   raised (run_turn example_render (scripted [Text ''Mental Health'', Text []])
     [greeting, HumanMessage ''I feel anxious and sad'']) = None \<and>
   chat_history (world_of (run_turn example_render (scripted [Text ''Mental Health'', Text []])
     [greeting, HumanMessage ''I feel anxious and sad''])) =
     [greeting, HumanMessage ''I feel anxious and sad'',
      AIMessage ''(Thinking... It seems like this might be a mental health concern.)'',
      AIMessage []]"
proof -
  have "run_turn example_render (scripted [Text ''Mental Health'', Fails ''timeout''])
      [greeting, HumanMessage ''I feel anxious and sad''] =
    Raised (PortFailure ''timeout'')
      \<lparr>chat_history = [greeting, HumanMessage ''I feel anxious and sad''] @
         [AIMessage (annotation ''mental_health'')],
       symptom = Some (content (last [greeting, HumanMessage ''I feel anxious and sad''])),
       category = Some ''mental_health'',
       calls = [classify_call [greeting, HumanMessage ''I feel anxious and sad''],
                persona_call example_render [greeting, HumanMessage ''I feel anxious and sad'']]\<rparr>"
    by (subst run_turn_mental_health [where r = "''Mental Health''"])
       (simp_all add: mental_health_response)
  moreover have "run_turn example_render (scripted [Text []])
      [greeting, HumanMessage ''I have a fever''] =
    Returned
      \<lparr>chat_history = [greeting, HumanMessage ''I have a fever''] @
         [AIMessage (annotation ''general''),
          AIMessage (general_text (content (last [greeting, HumanMessage ''I have a fever''])))],
       symptom = Some (content (last [greeting, HumanMessage ''I have a fever''])),
       category = Some ''general'',
       calls = [classify_call [greeting, HumanMessage ''I have a fever'']]\<rparr>"
    by (rule run_turn_general [where r = "[]"]) (simp_all add: empty_response)
  moreover have "run_turn example_render (scripted [Text ''Mental Health'', Text []])
      [greeting, HumanMessage ''I feel anxious and sad''] =
    Returned
      \<lparr>chat_history = [greeting, HumanMessage ''I feel anxious and sad''] @
         [AIMessage (annotation ''mental_health''), AIMessage []],
       symptom = Some (content (last [greeting, HumanMessage ''I feel anxious and sad''])),
       category = Some ''mental_health'',
       calls = [classify_call [greeting, HumanMessage ''I feel anxious and sad''],
                persona_call example_render [greeting, HumanMessage ''I feel anxious and sad'']]\<rparr>"
    by (subst run_turn_mental_health [where r = "''Mental Health''"])
       (simp_all add: mental_health_response)
  ultimately show ?thesis
    by (simp add: annotation_mental_health)
qed

text \<open>
  C3, as the code has it, on every non-empty transcript. When a call of the port raises,
  the turn raises that failure: after the classifier's call the transcript is the prior
  one, after the mental-health node's call it is the prior one followed by the
  classification annotation alone. A call that returns text, whatever the text (empty and
  unparseable included), never fails the turn: the classification text selects one of the
  three categories, the turn returns, and the transcript is the prior one followed by the
  annotation and the reply, the mental-health reply being the returned text as it is.
\<close>

theorem port_failure_outcome:
  assumes "hist \<noteq> []"
  shows "(llm 0 (classify_call hist) = Fails e \<longrightarrow>
            raised (run_turn render llm hist) = Some (PortFailure e) \<and>
            chat_history (world_of (run_turn render llm hist)) = hist) \<and>
         (llm 0 (classify_call hist) = Text r \<and> category_of_response r = ''mental_health'' \<and>
          llm 1 (persona_call render hist) = Fails e \<longrightarrow>
            raised (run_turn render llm hist) = Some (PortFailure e) \<and>
            chat_history (world_of (run_turn render llm hist)) =
              hist @ [AIMessage (annotation ''mental_health'')]) \<and>
         (llm 0 (classify_call hist) = Text r \<and> category_of_response r = ''general'' \<longrightarrow>
            raised (run_turn render llm hist) = None \<and>
            chat_history (world_of (run_turn render llm hist)) =
              hist @ [AIMessage (annotation ''general''),
                      AIMessage (general_text (content (last hist)))]) \<and>
         (llm 0 (classify_call hist) = Text r \<and> category_of_response r = ''emergency'' \<longrightarrow>
            raised (run_turn render llm hist) = None \<and>
            chat_history (world_of (run_turn render llm hist)) =
              hist @ [AIMessage (annotation ''emergency''),
                      AIMessage (emergency_text (content (last hist)))]) \<and>
         (llm 0 (classify_call hist) = Text r \<and> category_of_response r = ''mental_health'' \<and>
          llm 1 (persona_call render hist) = Text t \<longrightarrow>
            raised (run_turn render llm hist) = None \<and>
            chat_history (world_of (run_turn render llm hist)) =
              hist @ [AIMessage (annotation ''mental_health''), AIMessage t]) \<and>
         (llm 0 (classify_call hist) = Text [] \<longrightarrow>
            raised (run_turn render llm hist) = None \<and>
            chat_history (world_of (run_turn render llm hist)) =
              hist @ [AIMessage (annotation ''general''),
                      AIMessage (general_text (content (last hist)))]) \<and>
         (llm 0 (classify_call hist) = Text r \<and> category_of_response r = ''mental_health'' \<and>
          llm 1 (persona_call render hist) = Text [] \<longrightarrow>
            raised (run_turn render llm hist) = None \<and>
            chat_history (world_of (run_turn render llm hist)) =
              hist @ [AIMessage (annotation ''mental_health''), AIMessage []]) \<and>
         (category_of_response r = ''general'' \<or> category_of_response r = ''emergency'' \<or>
          category_of_response r = ''mental_health'')"
proof -
  have f0: "llm 0 (classify_call hist) = Fails e \<longrightarrow>
            raised (run_turn render llm hist) = Some (PortFailure e) \<and>
            chat_history (world_of (run_turn render llm hist)) = hist"
    using assms by (simp add: run_turn_classifier_fails)
  have f1: "llm 0 (classify_call hist) = Text r \<and> category_of_response r = ''mental_health'' \<and>
          llm 1 (persona_call render hist) = Fails e \<longrightarrow>
            raised (run_turn render llm hist) = Some (PortFailure e) \<and>
            chat_history (world_of (run_turn render llm hist)) =
              hist @ [AIMessage (annotation ''mental_health'')]"
    using assms by (simp add: run_turn_mental_health)
  have g: "llm 0 (classify_call hist) = Text r \<and> category_of_response r = ''general'' \<longrightarrow>
            raised (run_turn render llm hist) = None \<and>
            chat_history (world_of (run_turn render llm hist)) =
              hist @ [AIMessage (annotation ''general''),
                      AIMessage (general_text (content (last hist)))]"
    using assms by (simp add: run_turn_general)
  have em: "llm 0 (classify_call hist) = Text r \<and> category_of_response r = ''emergency'' \<longrightarrow>
            raised (run_turn render llm hist) = None \<and>
            chat_history (world_of (run_turn render llm hist)) =
              hist @ [AIMessage (annotation ''emergency''),
                      AIMessage (emergency_text (content (last hist)))]"
    using assms by (simp add: run_turn_emergency)
  have m: "llm 0 (classify_call hist) = Text r \<and> category_of_response r = ''mental_health'' \<and>
          llm 1 (persona_call render hist) = Text u \<longrightarrow>
            raised (run_turn render llm hist) = None \<and>
            chat_history (world_of (run_turn render llm hist)) =
              hist @ [AIMessage (annotation ''mental_health''), AIMessage u]" for u
    using assms by (simp add: run_turn_mental_health)
  have e0: "llm 0 (classify_call hist) = Text [] \<longrightarrow>
            raised (run_turn render llm hist) = None \<and>
            chat_history (world_of (run_turn render llm hist)) =
              hist @ [AIMessage (annotation ''general''),
                      AIMessage (general_text (content (last hist)))]"
    using assms by (simp add: run_turn_general [where r = "[]"] empty_response)
  from f0 f1 g em m [of t] e0 m [of "[]"] category_of_response_cases [of r]
  show ?thesis by blast
qed

theorem port_failure_outcome_witness:
  "raised (run_turn example_render (scripted [Fails ''timeout''])
     [greeting, HumanMessage ''I feel anxious and sad'']) = Some (PortFailure ''timeout'') \<and>
   chat_history (world_of (run_turn example_render (scripted [Fails ''timeout''])
     [greeting, HumanMessage ''I feel anxious and sad''])) =
     [greeting, HumanMessage ''I feel anxious and sad''] \<and>
   raised (run_turn example_render (scripted [Text ''Mental Health'', Fails ''quota''])
     [greeting, HumanMessage ''I feel anxious and sad'']) = Some (PortFailure ''quota'') \<and>
   chat_history (world_of (run_turn example_render (scripted [Text ''Mental Health'', Fails ''quota''])
     [greeting, HumanMessage ''I feel anxious and sad''])) =
     [greeting, HumanMessage ''I feel anxious and sad'',
      AIMessage (annotation ''mental_health'')] \<and>
   raised (run_turn example_render (scripted [Text []])
     [greeting, HumanMessage ''I feel anxious and sad'']) = None \<and>
   chat_history (world_of (run_turn example_render (scripted [Text []])
     [greeting, HumanMessage ''I feel anxious and sad''])) =
     [greeting, HumanMessage ''I feel anxious and sad'',
      AIMessage (annotation ''general''), AIMessage (general_text ''I feel anxious and sad'')] \<and>
   raised (run_turn example_render (scripted [Text ''Emergency''])
     [greeting, HumanMessage ''I feel anxious and sad'']) = None \<and>
   chat_history (world_of (run_turn example_render (scripted [Text ''Emergency''])
     [greeting, HumanMessage ''I feel anxious and sad''])) =
     [greeting, HumanMessage ''I feel anxious and sad'',
      AIMessage (annotation ''emergency''), AIMessage (emergency_text ''I feel anxious and sad'')] \<and>
   raised (run_turn example_render (scripted [Text ''Mental Health'', Text []])
     [greeting, HumanMessage ''I feel anxious and sad'']) = None \<and>
   chat_history (world_of (run_turn example_render (scripted [Text ''Mental Health'', Text []])
     [greeting, HumanMessage ''I feel anxious and sad''])) =
     [greeting, HumanMessage ''I feel anxious and sad'',
      AIMessage (annotation ''mental_health''), AIMessage []]"
proof -
  have e: "category_of_response ''Emergency'' = ''emergency''"
    by code_simp
  show ?thesis
    using
      port_failure_outcome [where hist = "[greeting, HumanMessage ''I feel anxious and sad'']"
        and llm = "scripted [Fails ''timeout'']" and e = "''timeout''" and render = example_render]
      port_failure_outcome [where hist = "[greeting, HumanMessage ''I feel anxious and sad'']"
        and llm = "scripted [Text ''Mental Health'', Fails ''quota'']" and e = "''quota''"
        and r = "''Mental Health''" and render = example_render]
      port_failure_outcome [where hist = "[greeting, HumanMessage ''I feel anxious and sad'']"
        and llm = "scripted [Text []]" and r = "[]" and render = example_render]
      port_failure_outcome [where hist = "[greeting, HumanMessage ''I feel anxious and sad'']"
        and llm = "scripted [Text ''Emergency'']" and r = "''Emergency''" and render = example_render]
      port_failure_outcome [where hist = "[greeting, HumanMessage ''I feel anxious and sad'']"
        and llm = "scripted [Text ''Mental Health'', Text []]" and r = "''Mental Health''"
        and t = "[]" and render = example_render]
    by (simp add: mental_health_response empty_response e)
qed

text \<open>
  C4. The specification states: a turn on an empty transcript, or on one whose last message is not the
  user's, fails before any call of the port. On the transcript that holds only the
  assistant's greeting the turn completes: the greeting is taken as the symptom and the
  port is called with it.
\<close>

theorem assistant_last_counterexample:
  "raised (run_turn example_render (scripted [Text ''General'']) [greeting]) = None \<and>
   calls (world_of (run_turn example_render (scripted [Text ''General'']) [greeting])) =
     [Messages [HumanMessage (classify_prompt (content greeting))]] \<and>
   symptom (world_of (run_turn example_render (scripted [Text ''General'']) [greeting])) =
     Some (content greeting)"
proof -
  have "run_turn example_render (scripted [Text ''General'']) [greeting] =
    Returned
      \<lparr>chat_history = [greeting] @
         [AIMessage (annotation ''general''), AIMessage (general_text (content (last [greeting])))],
       symptom = Some (content (last [greeting])),
       category = Some ''general'',
       calls = [classify_call [greeting]]\<rparr>"
    by (rule run_turn_general [where r = "''General''"]) (simp_all add: general_response)
  then show ?thesis by simp
qed

text \<open>
  C4, as the code has it: a turn on an empty transcript raises \<open>IndexError\<close> before any
  call of the port; on every other transcript, whoever wrote its last message, the port is
  called first with the classification prompt for that message's content.
\<close>

theorem empty_transcript_rejected:
  "run_turn render llm [] =
     Raised IndexError \<lparr>chat_history = [], symptom = None, category = None, calls = []\<rparr> \<and>
   (hist \<noteq> [] \<longrightarrow>
      take 1 (calls (world_of (run_turn render llm hist))) =
        [Messages [HumanMessage (classify_prompt (content (last hist)))]])"
  using run_turn_first_call [of hist render llm]
  by (simp add: run_turn_empty initial_state_def)

theorem empty_transcript_rejected_witness:
  "run_turn example_render (scripted [Text ''General'']) [] =
     Raised IndexError \<lparr>chat_history = [], symptom = None, category = None, calls = []\<rparr> \<and>
   take 1 (calls (world_of (run_turn example_render (scripted [Text ''General'']) [greeting]))) =
     [Messages [HumanMessage (classify_prompt (content greeting))]]"
  using empty_transcript_rejected [where render = example_render
    and llm = "scripted [Text ''General'']" and hist = "[greeting]"]
  by simp

text \<open>
  C5. In a mental-health turn the port is called twice and the second response is appended
  unchanged. The prompt of the second call embeds the rendered transcript, but the text it
  repeats as the user's latest message is the content of the last message of the history,
  which by then is the classifier's annotation and not the user's message. The turn of
  scenario C, evaluated:
\<close>

theorem persona_prompt_quotes_annotation:
  \<open>calls (world_of (run_turn example_render
      (scripted [Text ''Mental Health'', Text ''It sounds like you\'re carrying a lot right now.''])
      [greeting, HumanMessage ''I feel anxious and sad''])) =
     [Messages [HumanMessage (classify_prompt ''I feel anxious and sad'')],
      Prompt (mental_health_prompt example_render
        [greeting, HumanMessage ''I feel anxious and sad'',
         AIMessage ''(Thinking... It seems like this might be a mental health concern.)'']
        ''(Thinking... It seems like this might be a mental health concern.)'')] \<and>
   mental_health_prompt example_render
        [greeting, HumanMessage ''I feel anxious and sad'',
         AIMessage ''(Thinking... It seems like this might be a mental health concern.)'']
        ''(Thinking... It seems like this might be a mental health concern.)'' \<noteq>
   mental_health_prompt example_render
        [greeting, HumanMessage ''I feel anxious and sad'',
         AIMessage ''(Thinking... It seems like this might be a mental health concern.)'']
        ''I feel anxious and sad'' \<and>
   chat_history (world_of (run_turn example_render
      (scripted [Text ''Mental Health'', Text ''It sounds like you\'re carrying a lot right now.''])
      [greeting, HumanMessage ''I feel anxious and sad''])) =
     [greeting, HumanMessage ''I feel anxious and sad'',
      AIMessage ''(Thinking... It seems like this might be a mental health concern.)'',
      AIMessage ''It sounds like you\'re carrying a lot right now.'']\<close>
proof -
  have \<open>run_turn example_render
      (scripted [Text ''Mental Health'', Text ''It sounds like you\'re carrying a lot right now.''])
      [greeting, HumanMessage ''I feel anxious and sad''] =
    Returned
      \<lparr>chat_history = [greeting, HumanMessage ''I feel anxious and sad''] @
         [AIMessage (annotation ''mental_health''),
          AIMessage ''It sounds like you\'re carrying a lot right now.''],
       symptom = Some (content (last [greeting, HumanMessage ''I feel anxious and sad''])),
       category = Some ''mental_health'',
       calls = [classify_call [greeting, HumanMessage ''I feel anxious and sad''],
                persona_call example_render [greeting, HumanMessage ''I feel anxious and sad'']]\<rparr>\<close>
    by (subst run_turn_mental_health [where r = "''Mental Health''"])
       (simp_all add: mental_health_response)
  then show ?thesis
    by (simp add: annotation_mental_health mental_health_prompt_latest)
qed



text \<open>
  C7. After classification the category is one of general, emergency and mental_health;
  the conditional edge sends each of them to its handler (general to the general node,
  emergency to the emergency node, mental_health to the mental-health node), so neither
  the missing-key nor the unknown-branch error is reached.
\<close>

theorem router_total_on_categories:
  assumes "classify_symptom llm w = Returned w'"
  shows "((category w' = Some ''general'' \<and> route w' = Inr ''general'' \<and>
           dispatch render llm' w' = general_node w') \<or>
          (category w' = Some ''emergency'' \<and> route w' = Inr ''emergency'' \<and>
           dispatch render llm' w' = emergency_node w') \<or>
          (category w' = Some ''mental_health'' \<and> route w' = Inr ''mental_health_conversation'' \<and>
           dispatch render llm' w' = mental_health_node render llm' w')) \<and>
         route (v\<lparr>category := Some ''general''\<rparr>) = Inr ''general'' \<and>
         route (v\<lparr>category := Some ''emergency''\<rparr>) = Inr ''emergency'' \<and>
         route (v\<lparr>category := Some ''mental_health''\<rparr>) = Inr ''mental_health_conversation'' \<and>
         map_of (nodes render llm') ''general'' = Some general_node \<and>
         map_of (nodes render llm') ''emergency'' = Some emergency_node \<and>
         map_of (nodes render llm') ''mental_health_conversation'' =
           Some (mental_health_node render llm')"
proof -
  from classify_symptom_returned [OF assms] obtain r
    where c: "category w' = Some (category_of_response r)"
    by auto
  from category_of_response_cases [of r] c
  have "(category w' = Some ''general'' \<and> route w' = Inr ''general'' \<and>
           dispatch render llm' w' = general_node w') \<or>
          (category w' = Some ''emergency'' \<and> route w' = Inr ''emergency'' \<and>
           dispatch render llm' w' = emergency_node w') \<or>
          (category w' = Some ''mental_health'' \<and> route w' = Inr ''mental_health_conversation'' \<and>
           dispatch render llm' w' = mental_health_node render llm' w')"
    by (auto simp add: route_general route_emergency route_mental_health
        dispatch_general dispatch_emergency dispatch_mental_health)
  then show ?thesis
    by (simp add: route_general route_emergency route_mental_health nodes_def)
qed

theorem router_total_on_categories_witness:
  "classify_symptom (scripted [Text ''Emergency''])
     \<lparr>chat_history = [greeting, HumanMessage ''I am tired''], symptom = Some ''I am tired'',
      category = None, calls = []\<rparr> =
   Returned
     \<lparr>chat_history = [greeting, HumanMessage ''I am tired'', AIMessage (annotation ''emergency'')],
      symptom = Some ''I am tired'', category = Some ''emergency'',
      calls = [Messages [HumanMessage (classify_prompt ''I am tired'')]]\<rparr> \<and>
   route
     \<lparr>chat_history = [greeting, HumanMessage ''I am tired'', AIMessage (annotation ''emergency'')],
      symptom = Some ''I am tired'', category = Some ''emergency'',
      calls = [Messages [HumanMessage (classify_prompt ''I am tired'')]]\<rparr> = Inr ''emergency'' \<and>
   dispatch example_render (scripted [])
     \<lparr>chat_history = [greeting, HumanMessage ''I am tired'', AIMessage (annotation ''emergency'')],
      symptom = Some ''I am tired'', category = Some ''emergency'',
      calls = [Messages [HumanMessage (classify_prompt ''I am tired'')]]\<rparr> =
   emergency_node
     \<lparr>chat_history = [greeting, HumanMessage ''I am tired'', AIMessage (annotation ''emergency'')],
      symptom = Some ''I am tired'', category = Some ''emergency'',
      calls = [Messages [HumanMessage (classify_prompt ''I am tired'')]]\<rparr>"
proof -
  have e: "category_of_response ''Emergency'' = ''emergency''"
    by code_simp
  have run: "classify_symptom (scripted [Text ''Emergency''])
     \<lparr>chat_history = [greeting, HumanMessage ''I am tired''], symptom = Some ''I am tired'',
      category = None, calls = []\<rparr> =
   Returned
     \<lparr>chat_history = [greeting, HumanMessage ''I am tired'', AIMessage (annotation ''emergency'')],
      symptom = Some ''I am tired'', category = Some ''emergency'',
      calls = [Messages [HumanMessage (classify_prompt ''I am tired'')]]\<rparr>"
    by (simp add: classify_symptom_def Let_def e)
  from router_total_on_categories [OF run, where render = example_render and llm' = "scripted []"] run
  show ?thesis by simp
qed

text \<open>
  C8. The general and the emergency node append a message built from a fixed template
  around the symptom, leave the log of port calls as it is, and give equal replies on equal
  symptoms; a turn classified general or emergency calls the port exactly once, for the
  classification.
\<close>

theorem fixed_template_handlers:
  assumes "symptom w = Some s" and "symptom v = Some s"
  shows "general_node w = Returned (w\<lparr>chat_history := chat_history w @ [AIMessage (general_text s)]\<rparr>) \<and>
         emergency_node w = Returned (w\<lparr>chat_history := chat_history w @ [AIMessage (emergency_text s)]\<rparr>) \<and>
         calls (world_of (general_node w)) = calls w \<and>
         calls (world_of (emergency_node w)) = calls w \<and>
         (\<exists>pre post. \<forall>t. general_text t = pre @ t @ post) \<and>
         (\<exists>pre post. \<forall>t. emergency_text t = pre @ t @ post) \<and>
         last (chat_history (world_of (general_node v))) =
           last (chat_history (world_of (general_node w))) \<and>
         last (chat_history (world_of (emergency_node v))) =
           last (chat_history (world_of (emergency_node w))) \<and>
         (hist \<noteq> [] \<and> llm 0 (classify_call hist) = Text r \<and>
          (category_of_response r = ''general'' \<or> category_of_response r = ''emergency'') \<longrightarrow>
          raised (run_turn render llm hist) = None \<and>
          calls (world_of (run_turn render llm hist)) = [classify_call hist])"
proof -
  have g: "\<exists>pre post. \<forall>t. general_text t = pre @ t @ post"
    unfolding general_text_def by (intro exI allI) (rule append_assoc [symmetric])
  have e: "\<exists>pre post. \<forall>t. emergency_text t = pre @ t @ post"
    unfolding emergency_text_def by (intro exI allI) (rule append_assoc [symmetric])
  have t: "hist \<noteq> [] \<and> llm 0 (classify_call hist) = Text r \<and>
          (category_of_response r = ''general'' \<or> category_of_response r = ''emergency'') \<longrightarrow>
          raised (run_turn render llm hist) = None \<and>
          calls (world_of (run_turn render llm hist)) = [classify_call hist]"
    by (auto simp add: run_turn_general run_turn_emergency)
  from assms g e t show ?thesis
    by (simp add: general_node_def emergency_node_def)
qed

theorem fixed_template_handlers_witness:
  "general_node
     \<lparr>chat_history = [greeting, HumanMessage ''I have a fever'', AIMessage (annotation ''general'')],
      symptom = Some ''I have a fever'', category = Some ''general'',
      calls = [Messages [HumanMessage (classify_prompt ''I have a fever'')]]\<rparr> =
   Returned
     \<lparr>chat_history = [greeting, HumanMessage ''I have a fever'', AIMessage (annotation ''general''),
        AIMessage (general_text ''I have a fever'')],
      symptom = Some ''I have a fever'', category = Some ''general'',
      calls = [Messages [HumanMessage (classify_prompt ''I have a fever'')]]\<rparr> \<and>
   last (chat_history (world_of (emergency_node
     \<lparr>chat_history = [], symptom = Some ''I have a fever'', category = None, calls = []\<rparr>))) =
   last (chat_history (world_of (emergency_node
     \<lparr>chat_history = [greeting, HumanMessage ''I have a fever'', AIMessage (annotation ''general'')],
      symptom = Some ''I have a fever'', category = Some ''general'',
      calls = [Messages [HumanMessage (classify_prompt ''I have a fever'')]]\<rparr>))) \<and>
   raised (run_turn example_render (scripted [Text ''General''])
     [greeting, HumanMessage ''I have a fever'']) = None \<and>
   calls (world_of (run_turn example_render (scripted [Text ''General''])
     [greeting, HumanMessage ''I have a fever''])) =
     [Messages [HumanMessage (classify_prompt ''I have a fever'')]]"
  using fixed_template_handlers
    [where w = "\<lparr>chat_history = [greeting, HumanMessage ''I have a fever'', AIMessage (annotation ''general'')],
       symptom = Some ''I have a fever'', category = Some ''general'',
       calls = [Messages [HumanMessage (classify_prompt ''I have a fever'')]]\<rparr>"
     and v = "\<lparr>chat_history = [], symptom = Some ''I have a fever'', category = None, calls = []\<rparr>"
     and s = "''I have a fever''" and hist = "[greeting, HumanMessage ''I have a fever'']"
     and llm = "scripted [Text ''General'']" and r = "''General''" and render = example_render]
  by (simp add: general_response)

text \<open>
  C9. The first node sets the symptom to the content of the last message of the prior
  transcript, and no later node (classifier, handlers, dispatch) changes it, whether it
  returns or raises: at the end of the turn the symptom is still that content.
\<close>

theorem symptom_set_once:
  assumes "hist \<noteq> []"
  shows "symptom (world_of (get_symptom (initial_state hist))) = Some (content (last hist)) \<and>
         symptom (world_of (classify_symptom llm w)) = symptom w \<and>
         symptom (world_of (general_node w)) = symptom w \<and>
         symptom (world_of (emergency_node w)) = symptom w \<and>
         symptom (world_of (mental_health_node render llm w)) = symptom w \<and>
         symptom (world_of (dispatch render llm w)) = symptom w \<and>
         symptom (world_of (run_turn render llm hist)) = Some (content (last hist))"
proof -
  have c: "symptom (world_of (classify_symptom llm u)) = symptom u" for u
    by (simp add: classify_symptom_def Let_def split: option.splits port_reply.splits)
  have g: "symptom (world_of (general_node w)) = symptom w"
    by (simp add: general_node_def split: option.splits)
  have e: "symptom (world_of (emergency_node w)) = symptom w"
    by (simp add: emergency_node_def split: option.splits)
  have m: "symptom (world_of (mental_health_node render llm w)) = symptom w"
    by (simp add: mental_health_node_def Let_def split: list.splits port_reply.splits)
  have s: "symptom (world_of (get_symptom (initial_state hist))) = Some (content (last hist))"
    using assms by (simp add: get_symptom_initial)
  have "symptom (world_of (run_turn render llm hist)) = Some (content (last hist))"
  proof (cases "classify_symptom llm (world_of (get_symptom (initial_state hist)))")
    case (Returned u)
    with c [of "world_of (get_symptom (initial_state hist))"] s assms show ?thesis
      by (simp add: run_turn_def graph_invoke_def get_symptom_initial symptom_dispatch)
  next
    case (Raised x u)
    with c [of "world_of (get_symptom (initial_state hist))"] s assms show ?thesis
      by (simp add: run_turn_def graph_invoke_def get_symptom_initial)
  qed
  with c [of w] g e m s show ?thesis
    by (simp add: symptom_dispatch)
qed

theorem symptom_set_once_witness:
  "symptom (world_of (run_turn example_render (scripted [Text ''Mental Health'', Fails ''timeout''])
     [greeting, HumanMessage ''I feel anxious and sad''])) = Some ''I feel anxious and sad'' \<and>
   symptom (world_of (get_symptom (initial_state [greeting, HumanMessage ''I feel anxious and sad'']))) =
     Some ''I feel anxious and sad''"
  using symptom_set_once [where hist = "[greeting, HumanMessage ''I feel anxious and sad'']"
    and render = example_render and llm = "scripted [Text ''Mental Health'', Fails ''timeout'']"]
  by simp

text \<open>
  C10. The specification states: the annotation reads exactly "(Thinking... it seems like this might be a
  {category} concern.)". The code writes "It" with a capital letter.
\<close>

theorem annotation_lowercase_counterexample:
  "chat_history (world_of (classify_symptom (scripted [Text ''General''])
     \<lparr>chat_history = [greeting, HumanMessage ''I have a fever''],
      symptom = Some ''I have a fever'', category = None, calls = []\<rparr>)) =
     [greeting, HumanMessage ''I have a fever'',
      AIMessage ''(Thinking... It seems like this might be a general concern.)''] \<and>
   AIMessage ''(Thinking... It seems like this might be a general concern.)'' \<noteq>
   AIMessage ''(Thinking... it seems like this might be a general concern.)''"
  by (simp add: classify_symptom_def Let_def general_response annotation_general)

text \<open>
  C10, as the code has it: the classifier appends one assistant message whose text is
  "(Thinking... It seems like this might be a {category} concern.)", the category written
  with a space for every underscore: "general", "emergency" or "mental health".
\<close>

theorem annotation_text:
  assumes "classify_symptom llm w = Returned w'"
  shows "(category w' = Some ''general'' \<and>
          chat_history w' = chat_history w @
            [AIMessage ''(Thinking... It seems like this might be a general concern.)'']) \<or>
         (category w' = Some ''emergency'' \<and>
          chat_history w' = chat_history w @
            [AIMessage ''(Thinking... It seems like this might be a emergency concern.)'']) \<or>
         (category w' = Some ''mental_health'' \<and>
          chat_history w' = chat_history w @
            [AIMessage ''(Thinking... It seems like this might be a mental health concern.)''])"
proof -
  from classify_symptom_returned [OF assms] obtain r
    where c: "category w' = Some (category_of_response r)"
      and h: "chat_history w' = chat_history w @ [AIMessage (annotation (category_of_response r))]"
    by auto
  from category_of_response_cases [of r] c h show ?thesis
    by (auto simp add: annotation_general annotation_emergency annotation_mental_health)
qed

theorem annotation_text_witness:
  "classify_symptom (scripted [Text ''Mental Health''])
     \<lparr>chat_history = [greeting, HumanMessage ''I feel anxious and sad''],
      symptom = Some ''I feel anxious and sad'', category = None, calls = []\<rparr> =
   Returned
     \<lparr>chat_history = [greeting, HumanMessage ''I feel anxious and sad'',
        AIMessage (annotation ''mental_health'')],
      symptom = Some ''I feel anxious and sad'', category = Some ''mental_health'',
      calls = [Messages [HumanMessage (classify_prompt ''I feel anxious and sad'')]]\<rparr> \<and>
   AIMessage (annotation ''mental_health'') =
     AIMessage ''(Thinking... It seems like this might be a mental health concern.)''"
proof -
  have run: "classify_symptom (scripted [Text ''Mental Health''])
     \<lparr>chat_history = [greeting, HumanMessage ''I feel anxious and sad''],
      symptom = Some ''I feel anxious and sad'', category = None, calls = []\<rparr> =
   Returned
     \<lparr>chat_history = [greeting, HumanMessage ''I feel anxious and sad'',
        AIMessage (annotation ''mental_health'')],
      symptom = Some ''I feel anxious and sad'', category = Some ''mental_health'',
      calls = [Messages [HumanMessage (classify_prompt ''I feel anxious and sad'')]]\<rparr>"
    by (simp add: classify_symptom_def Let_def mental_health_response)
  from annotation_text [OF run] run show ?thesis
    by simp
qed

end
